theory Spec2Isabelle
  imports Main
begin

section \<open>Python values, errors and console output\<close>

text \<open>
  The script \<^verbatim>\<open>main.py\<close> drives a COPASI model through the \<^verbatim>\<open>basico\<close> package and
  shapes its results with \<^verbatim>\<open>pandas\<close>. Floating-point numbers are kept abstract: the type
  variable \<open>'f\<close> stands for Python's \<^verbatim>\<open>float\<close>, and nothing below computes with it.

  An \<open>obj\<close> is a Python object as it occurs as a cell or as a row or column label of a
  data frame: the missing value \<^verbatim>\<open>NaN\<close>, a float, a string, or an integer position such as the
  labels \<^verbatim>\<open>0, 1, ...\<close> that \<^verbatim>\<open>reset_index\<close> produces.
\<close>

datatype 'f obj = NaN | Flt 'f | Str string | Idx nat

text \<open>
  An element of the concentration list: the docstring of \<^verbatim>\<open>set_init_conc\<close> types it
  \<^verbatim>\<open>float or str\<close>.
\<close>

datatype 'f pyval = PFloat 'f | PStr string

fun obj_of :: "'f pyval \<Rightarrow> 'f obj" where
  "obj_of (PFloat x) = Flt x"
| "obj_of (PStr s) = Str s"

text \<open>The exceptions that the script and the library calls it makes can raise.\<close>

datatype error = ValueError | KeyError | IndexError | EOFError | InvalidIndexError

text \<open>
  The two Python primitives on floats that the script uses and that are not modelled further:
  \<^verbatim>\<open>float(s)\<close> on a string (\<open>None\<close> where Python raises \<^verbatim>\<open>ValueError\<close>) and the format
  \<^verbatim>\<open>f"{x:.8f}"\<close>.
\<close>

record 'f pyfloat =
  float_of_str :: "string \<Rightarrow> 'f option"
  format_8f :: "'f \<Rightarrow> string"

text \<open>\<^verbatim>\<open>float(value)\<close> on a list element: a float is returned as it is, a string is parsed.\<close>

fun float_coerce :: "'f pyfloat \<Rightarrow> 'f pyval \<Rightarrow> error + 'f" where
  "float_coerce py (PFloat x) = Inr x"
| "float_coerce py (PStr s) =
     (case float_of_str py s of None \<Rightarrow> Inl ValueError | Some x \<Rightarrow> Inr x)"

text \<open>
  \<^verbatim>\<open>str.lower()\<close>, on the ASCII letters: \<open>A..Z\<close> move to \<open>a..z\<close>, every other byte stays.
  No character outside \<open>A..Z\<close> lowers to one of \<open>d\<close>, \<open>o\<close>, \<open>n\<close>, \<open>e\<close>, so the
  comparison with \<^verbatim>\<open>'done'\<close> below is the one Python makes.
\<close>

definition lower_char :: "char \<Rightarrow> char" where
  "lower_char c =
     (case map_of (zip ''ABCDEFGHIJKLMNOPQRSTUVWXYZ'' ''abcdefghijklmnopqrstuvwxyz'') c of
        None \<Rightarrow> c
      | Some l \<Rightarrow> l)"

definition lower :: "string \<Rightarrow> string" where
  "lower s = map lower_char s"

section \<open>Data frames\<close>

text \<open>
  A \<^verbatim>\<open>pandas.DataFrame\<close>: the column labels, the row labels (the index) and the cells, one
  list per row. The operations below are the \<^verbatim>\<open>pandas\<close> calls of the script (pandas 1.x,
  where \<^verbatim>\<open>DataFrame.append\<close> exists), each with the failure pandas raises.
\<close>

record 'f frame =
  columns :: "'f obj list"
  index :: "'f obj list"
  cells :: "'f obj list list"

text \<open>\<^verbatim>\<open>pd.DataFrame(columns=cols)\<close>: the columns, and no row.\<close>

definition DataFrame_columns :: "'f obj list \<Rightarrow> 'f frame" where
  "DataFrame_columns cols = \<lparr>columns = cols, index = [], cells = []\<rparr>"

text \<open>The cell at position \<open>j\<close> of a row; a row never is shorter than the column list.\<close>

definition cell_at :: "'f obj list \<Rightarrow> nat \<Rightarrow> 'f obj" where
  "cell_at r j = (if j < length r then r ! j else NaN)"

text \<open>The positions of the columns that carry the label \<open>c\<close>, in column order.\<close>

definition positions :: "'f obj list \<Rightarrow> 'f obj \<Rightarrow> nat list" where
  "positions cols c = filter (\<lambda>j. cols ! j = c) [0..<length cols]"

text \<open>
  \<^verbatim>\<open>df[labels]\<close> with a list of labels: the columns with these labels, in the order of the list
  (every column that carries the label); \<^verbatim>\<open>KeyError\<close> when a label is no column.
\<close>

definition select_columns :: "'f frame \<Rightarrow> 'f obj list \<Rightarrow> error + 'f frame" where
  "select_columns df labels =
     (if \<exists>c \<in> set labels. c \<notin> set (columns df) then Inl KeyError
      else let ps = concat (map (positions (columns df)) labels)
           in Inr \<lparr>columns = map (\<lambda>j. columns df ! j) ps,
                   index = index df,
                   cells = map (\<lambda>r. map (cell_at r) ps) (cells df)\<rparr>)"

text \<open>
  \<^verbatim>\<open>df.drop(columns=labels)\<close>: the columns without these labels; \<^verbatim>\<open>KeyError\<close> when a label is
  no column.
\<close>

definition drop_columns :: "'f frame \<Rightarrow> 'f obj list \<Rightarrow> error + 'f frame" where
  "drop_columns df labels =
     (if \<exists>c \<in> set labels. c \<notin> set (columns df) then Inl KeyError
      else let ps = filter (\<lambda>j. columns df ! j \<notin> set labels) [0..<length (columns df)]
           in Inr \<lparr>columns = map (\<lambda>j. columns df ! j) ps,
                   index = index df,
                   cells = map (\<lambda>r. map (cell_at r) ps) (cells df)\<rparr>)"

text \<open>\<^verbatim>\<open>df.T\<close>: rows and columns change places.\<close>

definition transpose_df :: "'f frame \<Rightarrow> 'f frame" where
  "transpose_df df =
     \<lparr>columns = index df,
      index = columns df,
      cells = map (\<lambda>j. map (\<lambda>r. cell_at r j) (cells df)) [0..<length (columns df)]\<rparr>"

text \<open>
  \<^verbatim>\<open>df[c] = v\<close> with a scalar \<open>v\<close>: every row holds \<open>v\<close> in column \<open>c\<close>, a new last column
  when \<open>c\<close> is no column yet.
\<close>

definition set_column_scalar :: "'f frame \<Rightarrow> 'f obj \<Rightarrow> 'f obj \<Rightarrow> 'f frame" where
  "set_column_scalar df c v =
     (if c \<in> set (columns df)
      then df\<lparr>cells := map (\<lambda>r. map (\<lambda>j. if columns df ! j = c then v else cell_at r j)
                                   [0..<length (columns df)]) (cells df)\<rparr>
      else df\<lparr>columns := columns df @ [c], cells := map (\<lambda>r. r @ [v]) (cells df)\<rparr>)"

text \<open>
  \<^verbatim>\<open>df[c] = df.index\<close>: row \<open>i\<close> holds its own label in column \<open>c\<close>.
\<close>

definition set_column_index :: "'f frame \<Rightarrow> 'f obj \<Rightarrow> 'f frame" where
  "set_column_index df c =
     (if c \<in> set (columns df)
      then df\<lparr>cells := map (\<lambda>(r, v). map (\<lambda>j. if columns df ! j = c then v else cell_at r j)
                                        [0..<length (columns df)])
                           (zip (cells df) (index df))\<rparr>
      else df\<lparr>columns := columns df @ [c],
               cells := map (\<lambda>(r, v). r @ [v]) (zip (cells df) (index df))\<rparr>)"

text \<open>\<^verbatim>\<open>df.reset_index(drop=True)\<close>: the rows are labelled \<open>0, 1, ...\<close>.\<close>

definition reset_index :: "'f frame \<Rightarrow> 'f frame" where
  "reset_index df = df\<lparr>index := map Idx [0..<length (cells df)]\<rparr>"

text \<open>
  A row of a frame with columns \<open>cols\<close>, laid out for the columns \<open>target\<close>: the cell of the
  same label, \<^verbatim>\<open>NaN\<close> where the row has none.
\<close>

definition reindex_row :: "'f obj list \<Rightarrow> 'f obj list \<Rightarrow> 'f obj list \<Rightarrow> 'f obj list" where
  "reindex_row cols target r =
     map (\<lambda>c. case map_of (zip cols r) c of None \<Rightarrow> NaN | Some v \<Rightarrow> v) target"

text \<open>The labels of \<open>a\<close>, then those of \<open>b\<close> that \<open>a\<close> lacks: a union that is not sorted.\<close>

definition union_labels :: "'f obj list \<Rightarrow> 'f obj list \<Rightarrow> 'f obj list" where
  "union_labels a b = a @ filter (\<lambda>c. c \<notin> set a) b"

text \<open>
  \<^verbatim>\<open>df.append(other)\<close>: the rows of \<open>other\<close> under those of \<open>df\<close>. With equal column lists the
  rows are stacked as they are. Otherwise both frames are laid out for the union of the
  columns, which pandas does only for unique labels
  (\<^verbatim>\<open>InvalidIndexError: Reindexing only valid with uniquely valued Index objects\<close>).
\<close>

definition append_df :: "'f frame \<Rightarrow> 'f frame \<Rightarrow> error + 'f frame" where
  "append_df df other =
     (if columns df = columns other
      then Inr \<lparr>columns = columns df, index = index df @ index other,
                cells = cells df @ cells other\<rparr>
      else if distinct (columns df) \<and> distinct (columns other)
      then let u = union_labels (columns df) (columns other)
           in Inr \<lparr>columns = u, index = index df @ index other,
                   cells = map (reindex_row (columns df) u) (cells df) @
                           map (reindex_row (columns other) u) (cells other)\<rparr>
      else Inl InvalidIndexError)"

text \<open>
  \<^verbatim>\<open>pd.concat([a, b], axis=1)\<close>: the columns of \<open>b\<close> beside those of \<open>a\<close>, the rows aligned
  on their labels (an outer join). With equal indexes the rows are paired as they are.
  Otherwise the result has one row per label of the union, and a frame that has no row of that
  label contributes \<^verbatim>\<open>NaN\<close>; again pandas does so only for unique labels.
\<close>

definition row_of :: "'f frame \<Rightarrow> 'f obj \<Rightarrow> 'f obj list" where
  "row_of df l =
     (case map_of (zip (index df) (cells df)) l of
        None \<Rightarrow> replicate (length (columns df)) NaN
      | Some r \<Rightarrow> r)"

definition concat_axis1 :: "'f frame \<Rightarrow> 'f frame \<Rightarrow> error + 'f frame" where
  "concat_axis1 a b =
     (if index a = index b
      then Inr \<lparr>columns = columns a @ columns b, index = index a,
                cells = map (\<lambda>(r, s). r @ s) (zip (cells a) (cells b))\<rparr>
      else if distinct (index a) \<and> distinct (index b)
      then let u = union_labels (index a) (index b)
           in Inr \<lparr>columns = columns a @ columns b, index = u,
                   cells = map (\<lambda>l. row_of a l @ row_of b l) u\<rparr>
      else Inl InvalidIndexError)"

text \<open>
  \<^verbatim>\<open>df.columns = df.iloc[0]\<close>: the cells of the first row become the column labels;
  \<^verbatim>\<open>IndexError\<close> on a frame without rows.
\<close>

definition columns_from_first_row :: "'f frame \<Rightarrow> error + 'f frame" where
  "columns_from_first_row df =
     (case cells df of [] \<Rightarrow> Inl IndexError | r # _ \<Rightarrow> Inr (df\<lparr>columns := r\<rparr>))"

text \<open>\<^verbatim>\<open>df.iloc[1:]\<close>: all rows but the first.\<close>

definition iloc_from_1 :: "'f frame \<Rightarrow> 'f frame" where
  "iloc_from_1 df = df\<lparr>index := tl (index df), cells := tl (cells df)\<rparr>"

section \<open>The model facade and the console\<close>

text \<open>
  The \<^verbatim>\<open>basico\<close> calls of the script, on the one model that \<^verbatim>\<open>load_model\<close> made current.
  They are external: the state \<open>'m\<close> of the COPASI model and what each call does to it are
  parameters. \<open>get_species\<close> and \<open>get_reaction_parameters\<close> return a data frame whose row
  labels are the names.
\<close>

record ('m, 'f) facade =
  get_species :: "'m \<Rightarrow> 'f frame"
  get_reaction_parameters :: "'m \<Rightarrow> 'f frame"
  set_species :: "string \<Rightarrow> 'f \<Rightarrow> 'm \<Rightarrow> 'm"
  set_reaction_parameters :: "string \<Rightarrow> 'f \<Rightarrow> 'm \<Rightarrow> 'm"
  run_steadystate :: "'m \<Rightarrow> 'm"

text \<open>
  What the script writes to the console, one constructor per \<^verbatim>\<open>print\<close> or prompt of
  \<^verbatim>\<open>input\<close>. Standard input is the list of the lines still to be read; \<^verbatim>\<open>input\<close> on an
  exhausted input raises \<^verbatim>\<open>EOFError\<close>.
\<close>

datatype 'f msg =
    Species_banner "'f obj list"
  | Species_prompt
  | Species_unknown
  | Species_selected "string list"
  | Rates_banner "'f frame"
  | Rates_prompt
  | Rates_unknown
  | Rates_changing string
  | Value_prompt
  | Value_invalid
  | Rates_summary "'f frame"
  | Skip_conversion "'f pyval"
  | Skip_read "'f pyval"
  | Csv_generated

section \<open>Selecting the species\<close>

text \<open>
  The \<^verbatim>\<open>while True\<close> loop of \<^verbatim>\<open>cli_initial_conc\<close>: one line of input per round. A line
  that lowers to \<^verbatim>\<open>'done'\<close> ends the loop, a line that is not in \<open>list_of_species_names\<close>
  is refused with a message, any other line is appended to the selection.
\<close>

fun species_loop ::
  "'f obj list \<Rightarrow> string list \<Rightarrow> string list \<Rightarrow> 'f msg list \<Rightarrow>
   error + (string list \<times> string list \<times> 'f msg list)" where
  "species_loop list_of_species_names [] sel out = Inl EOFError"
| "species_loop list_of_species_names (species_name_input # rest) sel out =
     (if lower species_name_input = ''done''
      then Inr (sel, rest, out @ [Species_prompt])
      else if Str species_name_input \<notin> set list_of_species_names
      then species_loop list_of_species_names rest sel
             (out @ [Species_prompt, Species_unknown])
      else species_loop list_of_species_names rest (sel @ [species_name_input])
             (out @ [Species_prompt, Species_selected (sel @ [species_name_input])]))"

definition cli_initial_conc ::
  "'f frame \<Rightarrow> 'f obj list \<Rightarrow> string list \<Rightarrow>
   error + (string list \<times> string list \<times> 'f msg list)" where
  "cli_initial_conc species_df list_of_species_names stdin =
     species_loop list_of_species_names stdin [] [Species_banner (index species_df)]"

section \<open>Overriding reaction parameters\<close>

text \<open>
  The inner loop of \<^verbatim>\<open>cli_set_rates\<close>: it reads lines until \<^verbatim>\<open>float\<close> accepts one.
\<close>

fun value_loop ::
  "'f pyfloat \<Rightarrow> string list \<Rightarrow> 'f msg list \<Rightarrow> error + ('f \<times> string list \<times> 'f msg list)" where
  "value_loop py [] out = Inl EOFError"
| "value_loop py (t # rest) out =
     (case float_of_str py t of
        Some rate_value \<Rightarrow> Inr (rate_value, rest, out @ [Value_prompt])
      | None \<Rightarrow> value_loop py rest (out @ [Value_prompt, Value_invalid]))"

lemma value_loop_consumes:
  "value_loop py stdin out = Inr (v, rest, out') \<Longrightarrow> length rest < length stdin"
  by (induction py stdin out rule: value_loop.induct) (auto split: option.splits)

text \<open>
  The outer loop: a line that lowers to \<^verbatim>\<open>'done'\<close> ends it, a line that is no row label of
  the parameter frame read at the start is refused, and for any other line the value read by
  the inner loop is set in the model before the next round.
\<close>

function rates_loop ::
  "('m, 'f) facade \<Rightarrow> 'f pyfloat \<Rightarrow> 'f obj list \<Rightarrow> string list \<Rightarrow> 'm \<Rightarrow> 'f msg list \<Rightarrow>
   error + ('m \<times> string list \<times> 'f msg list)" where
  "rates_loop fc py list_of_rates [] m out = Inl EOFError"
| "rates_loop fc py list_of_rates (parameter_name # rest) m out =
     (if lower parameter_name = ''done''
      then Inr (m, rest, out @ [Rates_prompt])
      else if Str parameter_name \<notin> set list_of_rates
      then rates_loop fc py list_of_rates rest m (out @ [Rates_prompt, Rates_unknown])
      else (case value_loop py rest (out @ [Rates_prompt, Rates_changing parameter_name]) of
              Inl e \<Rightarrow> Inl e
            | Inr (rate_value, rest', out') \<Rightarrow>
                rates_loop fc py list_of_rates rest'
                  (set_reaction_parameters fc parameter_name rate_value m) out'))"
  by pat_completeness auto
termination
  by (relation "measure (\<lambda>(fc, py, rates, stdin, m, out). length stdin)")
     (auto dest: value_loop_consumes)

definition cli_set_rates ::
  "('m, 'f) facade \<Rightarrow> 'f pyfloat \<Rightarrow> string list \<Rightarrow> 'm \<Rightarrow>
   error + ('m \<times> string list \<times> 'f msg list)" where
  "cli_set_rates fc py stdin m =
     (let parameters_df = get_reaction_parameters fc m;
          list_of_rates = index parameters_df
      in case rates_loop fc py list_of_rates stdin m [Rates_banner parameters_df] of
           Inl e \<Rightarrow> Inl e
         | Inr (m', rest, out) \<Rightarrow>
             Inr (m', rest, out @ [Rates_summary (get_reaction_parameters fc m')]))"

section \<open>The sweep\<close>

text \<open>
  \<^verbatim>\<open>set_init_conc\<close>: the value is coerced first, and only then the species of the list are
  set, in list order.
\<close>

definition set_init_conc ::
  "('m, 'f) facade \<Rightarrow> 'f pyfloat \<Rightarrow> string list \<Rightarrow> 'f pyval \<Rightarrow> 'm \<Rightarrow> error + 'm" where
  "set_init_conc fc py list_of_species_init_conc concentration m =
     (case float_coerce py concentration of
        Inl e \<Rightarrow> Inl ValueError
      | Inr c \<Rightarrow> Inr (fold (\<lambda>spec. set_species fc spec c) list_of_species_init_conc m))"

text \<open>
  The row that one round of the sweep appends: the \<^verbatim>\<open>concentration\<close> column of the species
  frame, transposed, with the swept value (the list element as it is, not its coercion) in
  the column \<^verbatim>\<open>IP_tot\<close>.
\<close>

definition new_data :: "'f frame \<Rightarrow> 'f pyval \<Rightarrow> 'f frame" where
  "new_data steady_state_data concentration =
     set_column_scalar (transpose_df steady_state_data) (Str ''IP_tot'') (obj_of concentration)"

text \<open>
  \<^verbatim>\<open>analyze_steady_states\<close>: the \<^verbatim>\<open>for\<close> loop over the concentration list. The state is
  the model, the frame and the console output. A \<^verbatim>\<open>ValueError\<close> of \<^verbatim>\<open>set_init_conc\<close> and a
  \<^verbatim>\<open>KeyError\<close> of the column selection are caught and skip the round; an error of
  \<^verbatim>\<open>append\<close> is not caught.
\<close>

fun analyze_steady_states ::
  "('m, 'f) facade \<Rightarrow> 'f pyfloat \<Rightarrow> 'f pyval list \<Rightarrow> string list \<Rightarrow> 'f frame \<Rightarrow> 'm \<Rightarrow>
   'f msg list \<Rightarrow> error + ('f frame \<times> 'm \<times> 'f msg list)" where
  "analyze_steady_states fc py [] sel df m out = Inr (df, m, out)"
| "analyze_steady_states fc py (concentration # rest) sel df m out =
     (case set_init_conc fc py sel concentration m of
        Inl e \<Rightarrow> analyze_steady_states fc py rest sel df m (out @ [Skip_conversion concentration])
      | Inr m1 \<Rightarrow>
          (let m2 = run_steadystate fc m1 in
           case select_columns (get_species fc m2) [Str ''concentration''] of
             Inl e \<Rightarrow> analyze_steady_states fc py rest sel df m2 (out @ [Skip_read concentration])
           | Inr steady_state_data \<Rightarrow>
               (case append_df df (new_data steady_state_data concentration) of
                  Inl e \<Rightarrow> Inl e
                | Inr df' \<Rightarrow> analyze_steady_states fc py rest sel df' m2 out)))"

section \<open>The parameter snapshot and the result table\<close>

text \<open>
  \<^verbatim>\<open>cols.insert(0, cols.pop(cols.index('rates')))\<close>: the first \<^verbatim>\<open>'rates'\<close> moves to the
  front; \<^verbatim>\<open>ValueError\<close> when the list has none.
\<close>

definition rates_to_front :: "'f obj list \<Rightarrow> error + 'f obj list" where
  "rates_to_front cols =
     (if Str ''rates'' \<in> set cols then Inr (Str ''rates'' # remove1 (Str ''rates'') cols)
      else Inl ValueError)"

text \<open>\<^verbatim>\<open>handle_parameters_df\<close>, statement by statement.\<close>

definition handle_parameters_df :: "('m, 'f) facade \<Rightarrow> 'm \<Rightarrow> error + 'f frame" where
  "handle_parameters_df fc m =
     (let parameters_df = get_reaction_parameters fc m;
          with_rates = reset_index (set_column_index parameters_df (Str ''rates''))
      in case rates_to_front (columns with_rates) of
           Inl e \<Rightarrow> Inl e
         | Inr parameter_cols \<Rightarrow>
             (case select_columns with_rates parameter_cols of
                Inl e \<Rightarrow> Inl e
              | Inr ordered \<Rightarrow>
                  (case drop_columns ordered [Str ''type'', Str ''mapped_to'', Str ''reaction''] of
                     Inl e \<Rightarrow> Inl e
                   | Inr dropped \<Rightarrow>
                       (case columns_from_first_row (transpose_df dropped) of
                          Inl e \<Rightarrow> Inl e
                        | Inr named \<Rightarrow> Inr (reset_index (iloc_from_1 named))))))"

text \<open>
  The statement
  \<^verbatim>\<open>steady_state_analysis_df = pd.concat([steady_state_analysis_df, handle_parameters_df()], axis=1)\<close>
  as a function of the frame that the variable holds and of the model.
\<close>

definition assemble_result_table :: "('m, 'f) facade \<Rightarrow> 'f frame \<Rightarrow> 'm \<Rightarrow> error + 'f frame" where
  "assemble_result_table fc steady_state_analysis_df m =
     (case handle_parameters_df fc m of
        Inl e \<Rightarrow> Inl e
      | Inr parameters_df \<Rightarrow> concat_axis1 steady_state_analysis_df parameters_df)"

section \<open>Reading the concentrations\<close>

text \<open>
  A cell of the first spreadsheet column: a number or a text. \<^verbatim>\<open>str.strip()\<close> removes the
  ASCII white space at both ends.
\<close>

datatype 'f xcell = XNum 'f | XStr string

definition isspace :: "char \<Rightarrow> bool" where
  "isspace c = (let n = (of_char c :: nat) in (9 \<le> n \<and> n \<le> 13) \<or> (28 \<le> n \<and> n \<le> 32))"

definition strip :: "string \<Rightarrow> string" where
  "strip s = rev (dropWhile isspace (rev (dropWhile isspace s)))"

fun float_all :: "'f pyfloat \<Rightarrow> string list \<Rightarrow> error + 'f list" where
  "float_all py [] = Inr []"
| "float_all py (s # ss) =
     (case float_of_str py s of
        None \<Rightarrow> Inl ValueError
      | Some x \<Rightarrow> (case float_all py ss of Inl e \<Rightarrow> Inl e | Inr xs \<Rightarrow> Inr (x # xs)))"

text \<open>
  \<^verbatim>\<open>read_excel_file\<close>, from the list \<open>excel_column_a_list\<close> on: numbers are formatted with
  eight decimals, the first entry is the label, the others are parsed back.
\<close>

definition read_excel_file :: "'f pyfloat \<Rightarrow> 'f xcell list \<Rightarrow> error + ('f list \<times> string)" where
  "read_excel_file py excel_column_a_list =
     (let formatted_excel_list =
            map (\<lambda>v. case v of XNum x \<Rightarrow> format_8f py x | XStr s \<Rightarrow> s) excel_column_a_list
      in case formatted_excel_list of
           [] \<Rightarrow> Inl IndexError
         | first # others \<Rightarrow>
             (case float_all py others of
                Inl e \<Rightarrow> Inl e
              | Inr conc_list_from_excel \<Rightarrow> Inr (conc_list_from_excel, strip first)))"

section \<open>The script\<close>

text \<open>
  The module-level variables when the script ends, the frame being the one written to
  \<^verbatim>\<open>steady_state_analysis.csv\<close>.
\<close>

record ('m, 'f) globals =
  conc_list_from_excel :: "'f list"
  formatted_excel_list_name :: string
  list_of_species_names :: "'f obj list"
  list_of_species_init_conc :: "string list"
  model :: 'm
  steady_state_analysis_df :: "'f frame"
  stdout :: "'f msg list"

text \<open>
  The module-level statements of \<^verbatim>\<open>main.py\<close> in their order: read the spreadsheet column,
  take the species frame of the loaded model \<open>m0\<close>, put \<^verbatim>\<open>'name'\<close> in front of its labels,
  make the empty frame, run the two dialogues, concatenate with the parameter snapshot and
  write. The list with \<^verbatim>\<open>'name'\<close> in front is the one handed to \<^verbatim>\<open>cli_initial_conc\<close>.
\<close>

definition main ::
  "('m, 'f) facade \<Rightarrow> 'f pyfloat \<Rightarrow> 'f xcell list \<Rightarrow> string list \<Rightarrow> 'm \<Rightarrow>
   error + ('m, 'f) globals" where
  "main fc py excel_column_a_list stdin m0 =
     (case read_excel_file py excel_column_a_list of
        Inl e \<Rightarrow> Inl e
      | Inr (concs, label) \<Rightarrow>
          (let species_df = get_species fc m0;
               names = Str ''name'' # index species_df;
               df0 = DataFrame_columns names
           in case cli_initial_conc species_df names stdin of
                Inl e \<Rightarrow> Inl e
              | Inr (sel, stdin1, out1) \<Rightarrow>
                  (case cli_set_rates fc py stdin1 m0 of
                     Inl e \<Rightarrow> Inl e
                   | Inr (m1, stdin2, out2) \<Rightarrow>
                       (case assemble_result_table fc df0 m1 of
                          Inl e \<Rightarrow> Inl e
                        | Inr df \<Rightarrow>
                            Inr \<lparr>conc_list_from_excel = concs,
                                 formatted_excel_list_name = label,
                                 list_of_species_names = names,
                                 list_of_species_init_conc = sel,
                                 model = m1,
                                 steady_state_analysis_df = df,
                                 stdout = out1 @ out2 @ [Csv_generated]\<rparr>))))"

section \<open>A small model for the examples\<close>

text \<open>
  A concrete facade on which the theorems below are exercised: two species \<open>A\<close> and \<open>B\<close>,
  each with an initial and a steady-state concentration, and two reaction parameters \<open>k1\<close> and
  \<open>k2\<close>. The floats of this model are integers. Its solver copies every initial
  concentration to the steady state, and the species frame has no \<^verbatim>\<open>concentration\<close> column
  after a solve with a negative initial concentration.
\<close>

record toy_model =
  toy_A :: "int \<times> int"
  toy_B :: "int \<times> int"
  toy_k1 :: int
  toy_k2 :: int
  toy_solved :: bool

definition toy_get_species :: "toy_model \<Rightarrow> int frame" where
  "toy_get_species m =
     \<lparr>columns = (if toy_solved m then [Str ''initial_concentration'', Str ''concentration'']
                  else [Str ''initial_concentration'']),
      index = [Str ''A'', Str ''B''],
      cells = map (\<lambda>(i, c). if toy_solved m then [Flt i, Flt c] else [Flt i])
                [toy_A m, toy_B m]\<rparr>"

definition toy_get_reaction_parameters :: "toy_model \<Rightarrow> int frame" where
  "toy_get_reaction_parameters m =
     \<lparr>columns = [Str ''value'', Str ''reaction'', Str ''type'', Str ''mapped_to''],
      index = [Str ''k1'', Str ''k2''],
      cells = [[Flt (toy_k1 m), Str ''R1'', Str ''local'', Str []],
               [Flt (toy_k2 m), Str ''R2'', Str ''local'', Str []]]\<rparr>"

definition toy_set_species :: "string \<Rightarrow> int \<Rightarrow> toy_model \<Rightarrow> toy_model" where
  "toy_set_species name v m =
     (if name = ''A'' then m\<lparr>toy_A := (v, snd (toy_A m))\<rparr>
      else if name = ''B'' then m\<lparr>toy_B := (v, snd (toy_B m))\<rparr>
      else m)"

definition toy_set_reaction_parameters :: "string \<Rightarrow> int \<Rightarrow> toy_model \<Rightarrow> toy_model" where
  "toy_set_reaction_parameters name v m =
     (if name = ''k1'' then m\<lparr>toy_k1 := v\<rparr>
      else if name = ''k2'' then m\<lparr>toy_k2 := v\<rparr>
      else m)"

definition toy_run_steadystate :: "toy_model \<Rightarrow> toy_model" where
  "toy_run_steadystate m =
     m\<lparr>toy_A := (fst (toy_A m), fst (toy_A m)),
       toy_B := (fst (toy_B m), fst (toy_B m)),
       toy_solved := (0 \<le> fst (toy_A m) \<and> 0 \<le> fst (toy_B m))\<rparr>"

definition toy :: "(toy_model, int) facade" where
  "toy = \<lparr>get_species = toy_get_species,
          get_reaction_parameters = toy_get_reaction_parameters,
          set_species = toy_set_species,
          set_reaction_parameters = toy_set_reaction_parameters,
          run_steadystate = toy_run_steadystate\<rparr>"

text \<open>The same model with a species frame that always has its \<^verbatim>\<open>concentration\<close> column.\<close>

definition toy_converging :: "(toy_model, int) facade" where
  "toy_converging = toy\<lparr>get_species := (\<lambda>m. toy_get_species (m\<lparr>toy_solved := True\<rparr>))\<rparr>"

text \<open>
  The same model with its first species called \<^verbatim>\<open>name\<close>, the label that the script puts in
  front of the species names.
\<close>

definition toy_named :: "(toy_model, int) facade" where
  "toy_named =
     toy\<lparr>get_species := (\<lambda>m. (toy_get_species m)\<lparr>index := [Str ''name'', Str ''B'']\<rparr>),
         set_species := (\<lambda>n. toy_set_species (if n = ''name'' then ''A'' else n))\<rparr>"

text \<open>The floats that the examples read and print.\<close>

definition toy_py :: "int pyfloat" where
  "toy_py =
     \<lparr>float_of_str = (\<lambda>s. if s = ''1.0'' \<or> s = ''1.00000000'' then Some 1
                           else if s = ''2.0'' \<or> s = ''2.00000000'' then Some 2
                           else if s = ''-1.0'' then Some (- 1)
                           else None),
      format_8f = (\<lambda>x. if x = 1 then ''1.00000000'' else if x = 2 then ''2.00000000''
                        else ''0.00000000'')\<rparr>"

definition toy_m0 :: toy_model where
  "toy_m0 = \<lparr>toy_A = (0, 0), toy_B = (3, 3), toy_k1 = 5, toy_k2 = 7, toy_solved = True\<rparr>"

section \<open>The sentinel of the two dialogues\<close>

lemma lower_char_d: "lower_char c = CHR ''d'' \<longleftrightarrow> c = CHR ''d'' \<or> c = CHR ''D''"
  by (auto simp: lower_char_def split: if_splits)

lemma lower_char_o: "lower_char c = CHR ''o'' \<longleftrightarrow> c = CHR ''o'' \<or> c = CHR ''O''"
  by (auto simp: lower_char_def split: if_splits)

lemma lower_char_n: "lower_char c = CHR ''n'' \<longleftrightarrow> c = CHR ''n'' \<or> c = CHR ''N''"
  by (auto simp: lower_char_def split: if_splits)

lemma lower_char_e: "lower_char c = CHR ''e'' \<longleftrightarrow> c = CHR ''e'' \<or> c = CHR ''E''"
  by (auto simp: lower_char_def split: if_splits)

text \<open>The sixteen ways to write \<^verbatim>\<open>done\<close> in upper and lower case.\<close>

definition casings_of_done :: "string list" where
  "casings_of_done = [[a, b, c, d]. a \<leftarrow> ''dD'', b \<leftarrow> ''oO'', c \<leftarrow> ''nN'', d \<leftarrow> ''eE'']"

lemma lower_done_iff: "lower t = ''done'' \<longleftrightarrow> t \<in> set casings_of_done"
proof -
  have "lower t = ''done'' \<longleftrightarrow>
        (\<exists>a b c d. t = [a, b, c, d] \<and> lower_char a = CHR ''d'' \<and> lower_char b = CHR ''o''
                    \<and> lower_char c = CHR ''n'' \<and> lower_char d = CHR ''e'')"
    by (auto simp: lower_def map_eq_Cons_conv)
  also have "\<dots> \<longleftrightarrow> t \<in> set casings_of_done"
    unfolding lower_char_d lower_char_o lower_char_n lower_char_e casings_of_done_def
    by auto
  finally show ?thesis .
qed

text \<open>
  Claim C5, as amended. Both loops test \<^verbatim>\<open>.lower() == 'done'\<close>: with one line \<open>t\<close> on
  standard input, the species loop returns (instead of reading on into the end of input)
  exactly when \<open>t\<close> is one of the sixteen casings of \<^verbatim>\<open>done\<close>, and so does the parameter
  loop. On such a line each loop returns at once, leaving the rest of the input unread. The
  sentinel rules of the two loops are the same.
\<close>

theorem sentinel_any_casing_in_both_loops:
  "(\<not> isl (species_loop names [t] sel out) \<longleftrightarrow> t \<in> set casings_of_done) \<and>
   (\<not> isl (rates_loop fc py rates [t] m out') \<longleftrightarrow> t \<in> set casings_of_done) \<and>
   (t \<in> set casings_of_done \<longrightarrow>
      species_loop names (t # rest) sel out = Inr (sel, rest, out @ [Species_prompt]) \<and>
      rates_loop fc py rates (t # rest) m out' = Inr (m, rest, out' @ [Rates_prompt]))"
  by (simp add: lower_done_iff [symmetric])

theorem sentinel_any_casing_witness:
  "''DoNe'' \<in> set casings_of_done \<and>
   \<not> isl (species_loop [Str ''A''] [''DoNe''] [] ([] :: int msg list)) \<and>
   \<not> isl (rates_loop toy toy_py [Str ''k1''] [''DoNe''] toy_m0 []) \<and>
   species_loop [Str ''A''] [''DoNe'', ''A''] [] ([] :: int msg list) =
     Inr ([], [''A''], [Species_prompt]) \<and>
   rates_loop toy toy_py [Str ''k1''] [''DoNe'', ''k1''] toy_m0 [] =
     Inr (toy_m0, [''k1''], [Rates_prompt])"
proof -
  have h: "''DoNe'' \<in> set casings_of_done"
    by (simp add: casings_of_done_def)
  show ?thesis
    using h sentinel_any_casing_in_both_loops
      [of "[Str ''A'']" "''DoNe''" "[]" "[] :: int msg list" toy toy_py "[Str ''k1'']" toy_m0 "[]"
          "[''A'']"]
      sentinel_any_casing_in_both_loops
      [of "[Str ''A'']" "''DoNe''" "[]" "[] :: int msg list" toy toy_py "[Str ''k1'']" toy_m0 "[]"
          "[''k1'']"]
    by simp
qed

text \<open>
  The claim as stated fails: the line \<^verbatim>\<open>DONE\<close>, which is not the exact token \<^verbatim>\<open>done\<close>, ends
  the species loop, and the line after it is not read.
\<close>

theorem species_loop_ends_on_uppercase_DONE:
  "''DONE'' \<noteq> ''done'' \<and>
   species_loop [Str ''A''] [''DONE'', ''A''] [] ([] :: int msg list) =
     Inr ([], [''A''], [Species_prompt])"
  by (simp add: lower_def lower_char_def)

section \<open>The species selection\<close>

text \<open>
  The loop of \<^verbatim>\<open>cli_initial_conc\<close> keeps, in the order typed, the lines before the sentinel
  that are in the list it was given; a line that is not in the list leaves the selection as
  it is and prints the refusal.
\<close>

lemma species_loop_unknown_step:
  "lower t \<noteq> ''done'' \<Longrightarrow> Str t \<notin> set names \<Longrightarrow>
   species_loop names (t # rest) sel out =
   species_loop names rest sel (out @ [Species_prompt, Species_unknown])"
  by simp

lemma species_loop_selects_listed_names:
  assumes "\<forall>t \<in> set ts. lower t \<noteq> ''done''" and "lower d = ''done''"
  shows "\<exists>out'. species_loop names (ts @ d # rest) sel out =
           Inr (sel @ filter (\<lambda>t. Str t \<in> set names) ts, rest, out')"
  using assms(1)
proof (induction ts arbitrary: sel out)
  case Nil
  then show ?case using assms(2) by simp
next
  case (Cons t ts)
  from Cons.prems have nd: "lower t \<noteq> ''done''" and rest: "\<forall>t \<in> set ts. lower t \<noteq> ''done''"
    by simp_all
  show ?case
  proof (cases "Str t \<in> set names")
    case True
    from Cons.IH [OF rest, of "sel @ [t]" "out @ [Species_prompt, Species_selected (sel @ [t])]"]
    show ?thesis using nd True by simp
  next
    case False
    from Cons.IH [OF rest, of sel "out @ [Species_prompt, Species_unknown]"]
    show ?thesis using nd False by simp
  qed
qed

text \<open>
  Claim C6 fails on the script. The list that the script hands to \<^verbatim>\<open>cli_initial_conc\<close> is the
  one into which it has inserted \<^verbatim>\<open>'name'\<close> for the columns of the empty frame. For the model
  with the species \<open>A\<close> and \<open>B\<close>, the lines \<^verbatim>\<open>name\<close>, \<^verbatim>\<open>done\<close> (and \<^verbatim>\<open>done\<close> for the
  parameter dialogue) select \<^verbatim>\<open>name\<close>, which is no species of the model.
\<close>

theorem script_selects_name_as_species:
  "map_sum id list_of_species_init_conc
     (main toy toy_py [XStr ''run''] [''name'', ''done'', ''done''] toy_m0) = Inr [''name''] \<and>
   index (get_species toy toy_m0) = [Str ''A'', Str ''B'']"
  by code_simp

text \<open>
  Claim C10, as amended. The selection is a list: for a listed name \<open>a\<close> the lines \<open>a\<close>,
  \<open>a\<close> and a sentinel give the list with \<open>a\<close> twice, without an error, and the dialogue
  shows the growing list each time. Only as a set is the selection \<open>{a}\<close>.
\<close>

theorem duplicate_entry_is_appended_again:
  assumes "Str a \<in> set names" and "lower a \<noteq> ''done''" and "lower d = ''done''"
  shows "cli_initial_conc species_df names [a, a, d] =
           Inr ([a, a], [],
                [Species_banner (index species_df), Species_prompt, Species_selected [a],
                 Species_prompt, Species_selected [a, a], Species_prompt]) \<and>
         set [a, a] = {a}"
  using assms by (simp add: cli_initial_conc_def)

theorem duplicate_entry_witness:
  "Str ''A'' \<in> set [Str ''name'', Str ''A'', Str ''B''] \<and> lower ''A'' \<noteq> ''done'' \<and>
   lower ''done'' = ''done'' \<and>
   cli_initial_conc (toy_get_species toy_m0) [Str ''name'', Str ''A'', Str ''B'']
       [''A'', ''A'', ''done''] =
     Inr ([''A'', ''A''], [],
          [Species_banner [Str ''A'', Str ''B''], Species_prompt, Species_selected [''A''],
           Species_prompt, Species_selected [''A'', ''A''], Species_prompt])"
proof -
  have h1: "Str ''A'' \<in> set [Str ''name'', Str ''A'', Str ''B'' :: int obj]" by simp
  have h2: "lower ''A'' \<noteq> ''done''" by (simp add: lower_def)
  have h3: "lower ''done'' = ''done''" by (simp add: lower_def lower_char_def)
  have ix: "index (toy_get_species toy_m0) = [Str ''A'', Str ''B'']"
    by (simp add: toy_get_species_def toy_m0_def)
  show ?thesis
    using h1 h2 h3 duplicate_entry_is_appended_again [OF h1 h2 h3, of "toy_get_species toy_m0"]
    by (simp add: ix)
qed

text \<open>
  The claim as stated fails: after \<^verbatim>\<open>A\<close>, \<^verbatim>\<open>A\<close>, \<^verbatim>\<open>done\<close> the selection holds \<open>A\<close> twice.
\<close>

theorem selection_holds_A_twice:
  "map_sum id fst
     (cli_initial_conc (toy_get_species toy_m0) [Str ''name'', Str ''A'', Str ''B'']
        [''A'', ''A'', ''done'']) = Inr [''A'', ''A''] \<and>
   count_list [''A'', ''A''] ''A'' = 2 \<and> [''A'', ''A''] \<noteq> [''A'']"
  by (simp add: cli_initial_conc_def lower_def lower_char_def)

section \<open>The parameter dialogue\<close>

lemma value_loop_repeats:
  assumes "\<forall>b \<in> set bad. float_of_str py b = None" and "float_of_str py good = Some v"
  shows "value_loop py (bad @ good # rest) out =
           Inr (v, rest,
                out @ concat (map (\<lambda>b. [Value_prompt, Value_invalid]) bad) @ [Value_prompt])"
  using assms(1)
proof (induction bad arbitrary: out)
  case Nil
  then show ?case using assms(2) by simp
next
  case (Cons b bad)
  then show ?case by simp
qed

text \<open>
  Claim C9. After a known parameter name, every line that \<^verbatim>\<open>float\<close> refuses is answered with
  the message and a new prompt, and nothing else happens: the loop goes on with the next line.
  The first line that parses ends the inner loop, and the outer loop continues on the rest of
  the input with a model in which the parameter has been set already.
\<close>

theorem override_applied_once_value_parses:
  assumes "lower name \<noteq> ''done''" and "Str name \<in> set rates"
    and "\<forall>b \<in> set bad. float_of_str py b = None" and "float_of_str py good = Some v"
  shows "rates_loop fc py rates (name # bad @ good # rest) m out =
           rates_loop fc py rates rest (set_reaction_parameters fc name v m)
             (out @ [Rates_prompt, Rates_changing name] @
              concat (map (\<lambda>b. [Value_prompt, Value_invalid]) bad) @ [Value_prompt])"
  using assms by (simp add: value_loop_repeats)

theorem override_applied_witness:
  "lower ''k1'' \<noteq> ''done'' \<and> Str ''k1'' \<in> set [Str ''k1'', Str ''k2''] \<and>
   float_of_str toy_py ''abc'' = None \<and> float_of_str toy_py [] = None \<and>
   float_of_str toy_py ''2.0'' = Some 2 \<and>
   rates_loop toy toy_py [Str ''k1'', Str ''k2''] [''k1'', ''abc'', [], ''2.0'', ''done'']
       toy_m0 [] =
     Inr (toy_m0\<lparr>toy_k1 := 2\<rparr>, [],
          [Rates_prompt, Rates_changing ''k1'', Value_prompt, Value_invalid, Value_prompt,
           Value_invalid, Value_prompt, Rates_prompt])"
proof -
  have h1: "lower ''k1'' \<noteq> ''done''" by (simp add: lower_def)
  have h2: "Str ''k1'' \<in> set [Str ''k1'', Str ''k2'' :: int obj]" by simp
  have h3: "\<forall>b \<in> set [''abc'', []]. float_of_str toy_py b = None" by (simp add: toy_py_def)
  have h4: "float_of_str toy_py ''2.0'' = Some 2" by (simp add: toy_py_def)
  have d: "lower ''done'' = ''done''" by (simp add: lower_def lower_char_def)
  have u: "set_reaction_parameters toy ''k1'' 2 toy_m0 = toy_m0\<lparr>toy_k1 := 2\<rparr>"
    by (simp add: toy_def toy_set_reaction_parameters_def)
  show ?thesis
    using h1 h2 h3 h4
      override_applied_once_value_parses [OF h1 h2 h3 h4, of toy "[''done'']" toy_m0 "[]"]
    by (simp add: d u)
qed

section \<open>Skipped rounds of the sweep\<close>

text \<open>The frame and the model that the sweep returns, without the console output.\<close>

definition table_and_model ::
  "error + ('f frame \<times> 'm \<times> 'f msg list) \<Rightarrow> error + ('f frame \<times> 'm)" where
  "table_and_model r = map_sum id (\<lambda>(df, m, out). (df, m)) r"

lemma analyze_append:
  "analyze_steady_states fc py (xs @ ys) sel df m out =
     (case analyze_steady_states fc py xs sel df m out of
        Inl e \<Rightarrow> Inl e
      | Inr (df', m', out') \<Rightarrow> analyze_steady_states fc py ys sel df' m' out')"
  by (induction xs arbitrary: df m out) (auto simp: Let_def split: sum.splits)

lemma analyze_output_irrelevant:
  "table_and_model (analyze_steady_states fc py cs sel df m out) =
   table_and_model (analyze_steady_states fc py cs sel df m out')"
proof (induction cs arbitrary: df m out out')
  case Nil
  then show ?case by (simp add: table_and_model_def)
next
  case (Cons c cs)
  show ?case
    by (auto simp: Let_def Cons.IH [of _ _ "out @ _" "out' @ _"] Cons.IH [of _ _ out out']
             split: sum.splits)
qed

lemma float_coerce_error: "float_coerce py c = Inl e \<Longrightarrow> e = ValueError"
  by (cases c) (auto split: option.splits)

lemma set_init_conc_fails_iff:
  "isl (set_init_conc fc py sel c m) \<longleftrightarrow> isl (float_coerce py c)"
  by (simp add: set_init_conc_def split: sum.splits)

lemma coercion_failure_step:
  assumes "isl (float_coerce py c)"
  shows "analyze_steady_states fc py (c # rest) sel df m out =
         analyze_steady_states fc py rest sel df m (out @ [Skip_conversion c])"
  using assms by (auto simp: set_init_conc_def split: sum.splits)

lemma coercion_failure_row_absent:
  assumes "isl (float_coerce py c)"
  shows "table_and_model (analyze_steady_states fc py (xs @ c # ys) sel df m out) =
         table_and_model (analyze_steady_states fc py (xs @ ys) sel df m out)"
proof (cases "analyze_steady_states fc py xs sel df m out")
  case (Inl e)
  then show ?thesis by (simp add: analyze_append)
next
  case (Inr r)
  obtain df' m' out' where r: "r = (df', m', out')"
    by (cases r) auto
  show ?thesis
    using Inr r coercion_failure_step [OF assms, of fc ys sel df' m' out']
      analyze_output_irrelevant [of fc py ys sel df' m' "out' @ [Skip_conversion c]" out']
    by (simp add: analyze_append)
qed

lemma select_one_column:
  assumes "select_columns sp [c] = Inr ssd"
  shows "columns ssd = map (\<lambda>j. columns sp ! j) (positions (columns sp) c)"
    and "index ssd = index sp"
    and "c \<in> set (columns sp)"
  using assms by (auto simp: select_columns_def Let_def split: if_splits)

lemma new_data_columns:
  "columns (new_data ssd c) =
     (if Str ''IP_tot'' \<in> set (index ssd) then index ssd else index ssd @ [Str ''IP_tot''])"
  by (simp add: new_data_def set_column_scalar_def transpose_df_def)

lemma new_data_index: "index (new_data ssd c) = columns ssd"
  by (simp add: new_data_def set_column_scalar_def transpose_df_def)

lemma new_data_cells_length: "length (cells (new_data ssd c)) = length (columns ssd)"
  by (simp add: new_data_def set_column_scalar_def transpose_df_def)

lemma new_data_distinct:
  "distinct (index ssd) \<Longrightarrow> distinct (columns (new_data ssd c))"
  by (simp add: new_data_columns)

lemma append_df_distinct:
  assumes "distinct (columns a)" and "distinct (columns b)"
  shows "\<exists>r. append_df a b = Inr r \<and> distinct (columns r) \<and> index r = index a @ index b \<and>
             length (cells r) = length (cells a) + length (cells b)"
  using assms by (auto simp: append_df_def union_labels_def Let_def)

lemma append_df_error: "append_df a b = Inl e \<Longrightarrow> e = InvalidIndexError"
  by (auto simp: append_df_def Let_def split: if_splits)

text \<open>The only exception that leaves the sweep is the one of \<^verbatim>\<open>append\<close>.\<close>

lemma analyze_errors:
  "analyze_steady_states fc py cs sel df m out = Inl e \<Longrightarrow> e = InvalidIndexError"
proof (induction cs arbitrary: df m out)
  case Nil
  then show ?case by simp
next
  case (Cons c cs)
  then show ?case
    by (auto simp: Let_def split: sum.splits dest: append_df_error)
qed

text \<open>
  With unique species names and unique columns in the frame handed in, \<^verbatim>\<open>append\<close> never
  fails and the sweep returns.
\<close>

lemma analyze_total:
  assumes sp: "\<forall>m. distinct (index (get_species fc m))"
    and df: "distinct (columns df)"
  shows "\<exists>df' m' out'. analyze_steady_states fc py cs sel df m out = Inr (df', m', out') \<and>
           distinct (columns df')"
  using df
proof (induction cs arbitrary: df m out)
  case Nil
  then show ?case by simp
next
  case (Cons c cs)
  show ?case
  proof (cases "set_init_conc fc py sel c m")
    case (Inl e)
    then show ?thesis using Cons.IH [OF Cons.prems] by simp
  next
    case (Inr m1)
    let ?m2 = "run_steadystate fc m1"
    show ?thesis
    proof (cases "select_columns (get_species fc ?m2) [Str ''concentration'']")
      case (Inl e)
      then show ?thesis using Inr Cons.IH [OF Cons.prems] by (simp add: Let_def)
    next
      case ssd: (Inr ssd)
      have "distinct (index ssd)"
        using select_one_column(2) [OF ssd] sp by simp
      then have "distinct (columns (new_data ssd c))"
        by (rule new_data_distinct)
      from append_df_distinct [OF Cons.prems this]
      obtain r where r: "append_df df (new_data ssd c) = Inr r" "distinct (columns r)"
        by blast
      show ?thesis using Inr ssd r Cons.IH [OF r(2)] by (simp add: Let_def)
    qed
  qed
qed

lemma positions_nonempty: "positions cols c \<noteq> [] \<Longrightarrow> c \<in> set cols"
  by (auto simp: positions_def filter_empty_conv)

text \<open>
  When moreover the species frame always has exactly one \<^verbatim>\<open>concentration\<close> column, every
  value that coerces adds one row, and no other value adds any.
\<close>

lemma analyze_row_count:
  assumes sp: "\<forall>m. distinct (index (get_species fc m))"
    and one: "\<forall>m. length (positions (columns (get_species fc m)) (Str ''concentration'')) = 1"
    and df: "distinct (columns df)"
  shows "\<exists>df' m' out'. analyze_steady_states fc py cs sel df m out = Inr (df', m', out') \<and>
           distinct (columns df') \<and>
           length (index df') =
             length (index df) + length (filter (\<lambda>c. \<not> isl (float_coerce py c)) cs) \<and>
           length (cells df') =
             length (cells df) + length (filter (\<lambda>c. \<not> isl (float_coerce py c)) cs)"
  using df
proof (induction cs arbitrary: df m out)
  case Nil
  then show ?case by simp
next
  case (Cons c cs)
  show ?case
  proof (cases "set_init_conc fc py sel c m")
    case (Inl e)
    then have "isl (float_coerce py c)"
      using set_init_conc_fails_iff [of fc py sel c m] by simp
    then show ?thesis using Inl Cons.IH [OF Cons.prems] by simp
  next
    case (Inr m1)
    then have ok: "\<not> isl (float_coerce py c)"
      using set_init_conc_fails_iff [of fc py sel c m] by simp
    let ?m2 = "run_steadystate fc m1"
    let ?sp = "get_species fc ?m2"
    have len1: "length (positions (columns ?sp) (Str ''concentration'')) = 1"
      using one by simp
    then have "positions (columns ?sp) (Str ''concentration'') \<noteq> []"
      by auto
    then have "Str ''concentration'' \<in> set (columns ?sp)"
      by (rule positions_nonempty)
    then obtain ssd where ssd: "select_columns ?sp [Str ''concentration''] = Inr ssd"
      by (auto simp: select_columns_def Let_def)
    have cols1: "length (columns ssd) = 1"
      using select_one_column(1) [OF ssd] len1 by simp
    have "distinct (index ssd)"
      using select_one_column(2) [OF ssd] sp by simp
    then have "distinct (columns (new_data ssd c))"
      by (rule new_data_distinct)
    from append_df_distinct [OF Cons.prems this]
    obtain r where r: "append_df df (new_data ssd c) = Inr r" "distinct (columns r)"
      "index r = index df @ index (new_data ssd c)"
      "length (cells r) = length (cells df) + length (cells (new_data ssd c))"
      by blast
    have ri: "length (index r) = Suc (length (index df))"
      using r(3) cols1 by (simp add: new_data_index)
    have rc: "length (cells r) = Suc (length (cells df))"
      using r(4) cols1 by (simp add: new_data_cells_length)
    show ?thesis
      using Inr ssd r(1) ok ri rc Cons.IH [OF r(2), of ?m2 out] by (simp add: Let_def)
  qed
qed

text \<open>
  Claim C7, as amended. Let \<open>c\<close> be a value that \<^verbatim>\<open>float\<close> refuses. Then
  \<^verbatim>\<open>set_init_conc\<close> raises before it sets any species; the round of \<open>c\<close> prints the skip
  and hands the frame and the model on as they were, without a solve; the sweep over a list with
  \<open>c\<close> in it returns the frame and the model of the list without \<open>c\<close>, so the row count
  is that of the list without \<open>c\<close>, not one less; and, where species names and frame
  columns are unique and every read succeeds, the frame has exactly one row less than with a
  value \<open>g\<close> that coerces in the place of \<open>c\<close>.
\<close>

theorem coercion_failure_skips_round:
  assumes "isl (float_coerce py c)"
  shows "set_init_conc fc py sel c m = Inl ValueError \<and>
         analyze_steady_states fc py (c # rest) sel df m out =
           analyze_steady_states fc py rest sel df m (out @ [Skip_conversion c]) \<and>
         table_and_model (analyze_steady_states fc py (xs @ c # ys) sel df m out) =
           table_and_model (analyze_steady_states fc py (xs @ ys) sel df m out) \<and>
         ((\<forall>m. distinct (index (get_species fc m))) \<and>
          (\<forall>m. length (positions (columns (get_species fc m)) (Str ''concentration'')) = 1) \<and>
          distinct (columns df) \<and> \<not> isl (float_coerce py g) \<longrightarrow>
          (\<exists>d1 m1 o1 d2 m2 o2.
             analyze_steady_states fc py (xs @ c # ys) sel df m out = Inr (d1, m1, o1) \<and>
             analyze_steady_states fc py (xs @ g # ys) sel df m out = Inr (d2, m2, o2) \<and>
             length (cells d2) = Suc (length (cells d1))))"
proof (intro conjI impI)
  show "set_init_conc fc py sel c m = Inl ValueError"
    using assms by (auto simp: set_init_conc_def split: sum.splits)
  show "analyze_steady_states fc py (c # rest) sel df m out =
        analyze_steady_states fc py rest sel df m (out @ [Skip_conversion c])"
    by (rule coercion_failure_step [OF assms])
  show "table_and_model (analyze_steady_states fc py (xs @ c # ys) sel df m out) =
        table_and_model (analyze_steady_states fc py (xs @ ys) sel df m out)"
    by (rule coercion_failure_row_absent [OF assms])
next
  assume h: "(\<forall>m. distinct (index (get_species fc m))) \<and>
             (\<forall>m. length (positions (columns (get_species fc m)) (Str ''concentration'')) = 1) \<and>
             distinct (columns df) \<and> \<not> isl (float_coerce py g)"
  then have sp: "\<forall>m. distinct (index (get_species fc m))"
    and one: "\<forall>m. length (positions (columns (get_species fc m)) (Str ''concentration'')) = 1"
    and df: "distinct (columns df)" and g: "\<not> isl (float_coerce py g)"
    by simp_all
  from analyze_row_count [OF sp one df, of py "xs @ c # ys" sel m out]
  obtain d1 m1 o1 where
    r1: "analyze_steady_states fc py (xs @ c # ys) sel df m out = Inr (d1, m1, o1)"
      "length (cells d1) =
         length (cells df) + length (filter (\<lambda>c. \<not> isl (float_coerce py c)) (xs @ c # ys))"
    by blast
  from analyze_row_count [OF sp one df, of py "xs @ g # ys" sel m out]
  obtain d2 m2 o2 where
    r2: "analyze_steady_states fc py (xs @ g # ys) sel df m out = Inr (d2, m2, o2)"
      "length (cells d2) =
         length (cells df) + length (filter (\<lambda>c. \<not> isl (float_coerce py c)) (xs @ g # ys))"
    by blast
  have "length (cells d2) = Suc (length (cells d1))"
    using r1(2) r2(2) assms g by simp
  with r1(1) r2(1)
  show "\<exists>d1 m1 o1 d2 m2 o2.
          analyze_steady_states fc py (xs @ c # ys) sel df m out = Inr (d1, m1, o1) \<and>
          analyze_steady_states fc py (xs @ g # ys) sel df m out = Inr (d2, m2, o2) \<and>
          length (cells d2) = Suc (length (cells d1))"
    by blast
qed
theorem coercion_failure_witness:
  "isl (float_coerce toy_py (PStr ''x'')) \<and> \<not> isl (float_coerce toy_py (PFloat 2)) \<and>
   set_init_conc toy_converging toy_py [''A''] (PStr ''x'') toy_m0 = Inl ValueError \<and>
   analyze_steady_states toy_converging toy_py [PStr ''x'', PFloat 2] [''A'']
       (DataFrame_columns [Str ''name'', Str ''A'', Str ''B'']) toy_m0 [] =
     analyze_steady_states toy_converging toy_py [PFloat 2] [''A'']
       (DataFrame_columns [Str ''name'', Str ''A'', Str ''B'']) toy_m0
       [Skip_conversion (PStr ''x'')] \<and>
   table_and_model
     (analyze_steady_states toy_converging toy_py [PFloat 1, PStr ''x'', PFloat 2] [''A'']
        (DataFrame_columns [Str ''name'', Str ''A'', Str ''B'']) toy_m0 []) =
   table_and_model
     (analyze_steady_states toy_converging toy_py [PFloat 1, PFloat 2] [''A'']
        (DataFrame_columns [Str ''name'', Str ''A'', Str ''B'']) toy_m0 []) \<and>
   (\<exists>d1 m1 o1 d2 m2 o2.
      analyze_steady_states toy_converging toy_py [PFloat 1, PStr ''x'', PFloat 2] [''A'']
        (DataFrame_columns [Str ''name'', Str ''A'', Str ''B'']) toy_m0 [] = Inr (d1, m1, o1) \<and>
      analyze_steady_states toy_converging toy_py [PFloat 1, PFloat 2, PFloat 2] [''A'']
        (DataFrame_columns [Str ''name'', Str ''A'', Str ''B'']) toy_m0 [] = Inr (d2, m2, o2) \<and>
      length (cells d2) = Suc (length (cells d1)))"
proof -
  have h: "isl (float_coerce toy_py (PStr ''x''))"
    by (simp add: toy_py_def)
  have g: "\<not> isl (float_coerce toy_py (PFloat 2))"
    by simp
  have sp: "\<forall>m. distinct (index (get_species toy_converging m))"
    by (simp add: toy_converging_def toy_def toy_get_species_def)
  have one: "\<forall>m. length (positions (columns (get_species toy_converging m))
                              (Str ''concentration'')) = 1"
    by (simp add: toy_converging_def toy_def toy_get_species_def positions_def)
  have df: "distinct (columns (DataFrame_columns [Str ''name'', Str ''A'', Str ''B''] :: int frame))"
    by (simp add: DataFrame_columns_def)
  note t1 = coercion_failure_skips_round [OF h, of toy_converging "[''A'']" toy_m0 "[PFloat 2]"
      "DataFrame_columns [Str ''name'', Str ''A'', Str ''B'']" "[]" "[PFloat 1]" "[PFloat 2]"
      "PFloat 2"]
  show ?thesis
    using h g sp one df t1 by simp
qed

text \<open>
  The claim as stated fails in its count. The sweep over \<open>1\<close>, \<^verbatim>\<open>x\<close>, \<open>2\<close> returns two
  rows, as many as the sweep over \<open>1\<close>, \<open>2\<close>, the same list without the value. And
  against a value in its place the count need not drop either: \<^verbatim>\<open>x\<close>, \<open>1\<close> and
  \<open>-1\<close>, \<open>1\<close> both return one row, since the read after the solve of \<open>-1\<close> fails.
\<close>

theorem skipped_value_leaves_row_count_unchanged:
  "map_sum id (\<lambda>r. length (cells (fst r)))
     (analyze_steady_states toy toy_py [PFloat 1, PStr ''x'', PFloat 2] [''A'']
        (DataFrame_columns [Str ''name'', Str ''A'', Str ''B'']) toy_m0 []) = Inr 2 \<and>
   map_sum id (\<lambda>r. length (cells (fst r)))
     (analyze_steady_states toy toy_py [PFloat 1, PFloat 2] [''A'']
        (DataFrame_columns [Str ''name'', Str ''A'', Str ''B'']) toy_m0 []) = Inr 2 \<and>
   map_sum id (\<lambda>r. length (cells (fst r)))
     (analyze_steady_states toy toy_py [PStr ''x'', PFloat 1] [''A'']
        (DataFrame_columns [Str ''name'', Str ''A'', Str ''B'']) toy_m0 []) = Inr 1 \<and>
   map_sum id (\<lambda>r. length (cells (fst r)))
     (analyze_steady_states toy toy_py [PFloat (- 1), PFloat 1] [''A'']
        (DataFrame_columns [Str ''name'', Str ''A'', Str ''B'']) toy_m0 []) = Inr 1"
  by code_simp

text \<open>
  Claim C8, as amended. A round whose value coerces but whose species frame, read after the
  solve, has no \<^verbatim>\<open>concentration\<close> column prints the skip and goes on to the next value,
  with the frame as it was and the model as the solve left it. Neither the \<^verbatim>\<open>ValueError\<close>
  of the coercion nor the \<^verbatim>\<open>KeyError\<close> of the read ever leaves the sweep. The \<^verbatim>\<open>append\<close>
  of a round that succeeded stands outside both \<^verbatim>\<open>try\<close> blocks: with unique species names
  and unique columns in the frame handed in it never fails and the sweep returns normally.
\<close>

theorem read_failure_skips_round:
  "(set_init_conc fc py sel c m = Inr m1 \<and>
    select_columns (get_species fc (run_steadystate fc m1)) [Str ''concentration''] = Inl KeyError \<longrightarrow>
      analyze_steady_states fc py (c # rest) sel df m out =
        analyze_steady_states fc py rest sel df (run_steadystate fc m1) (out @ [Skip_read c])) \<and>
   analyze_steady_states fc py cs sel df m out \<noteq> Inl KeyError \<and>
   analyze_steady_states fc py cs sel df m out \<noteq> Inl ValueError \<and>
   ((\<forall>m. distinct (index (get_species fc m))) \<and> distinct (columns df) \<longrightarrow>
      \<not> isl (analyze_steady_states fc py cs sel df m out))"
proof (intro conjI impI)
  assume "set_init_conc fc py sel c m = Inr m1 \<and>
    select_columns (get_species fc (run_steadystate fc m1)) [Str ''concentration''] = Inl KeyError"
  then show "analyze_steady_states fc py (c # rest) sel df m out =
        analyze_steady_states fc py rest sel df (run_steadystate fc m1) (out @ [Skip_read c])"
    by (simp add: Let_def)
next
  show "analyze_steady_states fc py cs sel df m out \<noteq> Inl KeyError"
    using analyze_errors [of fc py cs sel df m out KeyError] by auto
  show "analyze_steady_states fc py cs sel df m out \<noteq> Inl ValueError"
    using analyze_errors [of fc py cs sel df m out ValueError] by auto
next
  assume "(\<forall>m. distinct (index (get_species fc m))) \<and> distinct (columns df)"
  then have "\<exists>df' m' out'. analyze_steady_states fc py cs sel df m out = Inr (df', m', out') \<and>
               distinct (columns df')"
    using analyze_total [of fc df py cs sel m out] by simp
  then show "\<not> isl (analyze_steady_states fc py cs sel df m out)"
    by auto
qed

theorem read_failure_witness:
  "set_init_conc toy toy_py [''A''] (PFloat (- 1)) toy_m0 = Inr (toy_m0\<lparr>toy_A := (- 1, 0)\<rparr>) \<and>
   select_columns (get_species toy (run_steadystate toy (toy_m0\<lparr>toy_A := (- 1, 0)\<rparr>)))
     [Str ''concentration''] = Inl KeyError \<and>
   analyze_steady_states toy toy_py [PFloat (- 1), PFloat 1] [''A'']
       (DataFrame_columns [Str ''name'', Str ''A'', Str ''B'']) toy_m0 [] =
     Inr (\<lparr>columns = [Str ''name'', Str ''A'', Str ''B'', Str ''IP_tot''],
           index = [Str ''concentration''],
           cells = [[NaN, Flt 1, Flt 3, Flt 1]]\<rparr>,
          \<lparr>toy_A = (1, 1), toy_B = (3, 3), toy_k1 = 5, toy_k2 = 7, toy_solved = True\<rparr>,
          [Skip_read (PFloat (- 1))]) \<and>
   \<not> isl (analyze_steady_states toy toy_py [PFloat (- 1), PFloat 1] [''A'']
            (DataFrame_columns [Str ''name'', Str ''A'', Str ''B'']) toy_m0 [])"
proof -
  have h1: "set_init_conc toy toy_py [''A''] (PFloat (- 1)) toy_m0 =
            Inr (toy_m0\<lparr>toy_A := (- 1, 0)\<rparr>)"
    by (simp add: set_init_conc_def toy_def toy_set_species_def toy_m0_def)
  have h2: "select_columns (get_species toy (run_steadystate toy (toy_m0\<lparr>toy_A := (- 1, 0)\<rparr>)))
              [Str ''concentration''] = Inl KeyError"
    by (simp add: select_columns_def toy_def toy_get_species_def toy_run_steadystate_def
        toy_m0_def)
  have sp: "\<forall>m. distinct (index (get_species toy m))"
    by (simp add: toy_def toy_get_species_def)
  have df: "distinct (columns (DataFrame_columns [Str ''name'', Str ''A'', Str ''B''] :: int frame))"
    by (simp add: DataFrame_columns_def)
  have e: "analyze_steady_states toy toy_py [PFloat 1] [''A'']
             (DataFrame_columns [Str ''name'', Str ''A'', Str ''B''])
             (run_steadystate toy (toy_m0\<lparr>toy_A := (- 1, 0)\<rparr>)) [Skip_read (PFloat (- 1))] =
           Inr (\<lparr>columns = [Str ''name'', Str ''A'', Str ''B'', Str ''IP_tot''],
                 index = [Str ''concentration''],
                 cells = [[NaN, Flt 1, Flt 3, Flt 1]]\<rparr>,
                \<lparr>toy_A = (1, 1), toy_B = (3, 3), toy_k1 = 5, toy_k2 = 7, toy_solved = True\<rparr>,
                [Skip_read (PFloat (- 1))])"
    by code_simp
  note t = read_failure_skips_round [of toy toy_py "[''A'']" "PFloat (- 1)" toy_m0
      "toy_m0\<lparr>toy_A := (- 1, 0)\<rparr>" "[PFloat 1]"
      "DataFrame_columns [Str ''name'', Str ''A'', Str ''B'']" "[]" "[PFloat (- 1), PFloat 1]"]
  show ?thesis
    using h1 h2 sp df e t by simp
qed

text \<open>
  The claim as stated fails: an exception of a round can leave the sweep. For the model whose
  first species is called \<^verbatim>\<open>name\<close>, the frame that the script creates has the column
  \<^verbatim>\<open>name\<close> twice. The round of \<open>-1\<close> is skipped on its read, and in the round of \<open>1\<close>
  the \<^verbatim>\<open>append\<close> raises.
\<close>

theorem append_error_leaves_the_sweep:
  "index (get_species toy_named toy_m0) = [Str ''name'', Str ''B''] \<and>
   analyze_steady_states toy_named toy_py [PFloat (- 1), PFloat 1] [''name'']
     (DataFrame_columns (Str ''name'' # index (get_species toy_named toy_m0))) toy_m0 [] =
     Inl InvalidIndexError"
  by code_simp

section \<open>The parameter snapshot and the written frame\<close>

text \<open>
  The shape of the frame that \<^verbatim>\<open>basico.get_reaction_parameters\<close> returns: the four columns
  \<^verbatim>\<open>value\<close>, \<^verbatim>\<open>reaction\<close>, \<^verbatim>\<open>type\<close> and \<^verbatim>\<open>mapped_to\<close>, one row of four cells per
  parameter.
\<close>

definition basico_parameters :: "'f frame \<Rightarrow> bool" where
  "basico_parameters p \<longleftrightarrow>
     columns p = [Str ''value'', Str ''reaction'', Str ''type'', Str ''mapped_to''] \<and>
     length (cells p) = length (index p) \<and>
     list_all (\<lambda>r. length r = 4) (cells p)"

lemma upt5: "[0..<5] = [0, 1, 2, 3, 4]"
  by (simp add: upt_rec)

lemma with_rates_frame:
  assumes "basico_parameters p"
  shows "reset_index (set_column_index p (Str ''rates'')) =
           \<lparr>columns = [Str ''value'', Str ''reaction'', Str ''type'', Str ''mapped_to'', Str ''rates''],
            index = map Idx [0..<length (index p)],
            cells = map (\<lambda>(r, v). r @ [v]) (zip (cells p) (index p))\<rparr>"
  using assms by (simp add: basico_parameters_def reset_index_def set_column_index_def)

lemma ordered_frame:
  "select_columns
     \<lparr>columns = [Str ''value'', Str ''reaction'', Str ''type'', Str ''mapped_to'', Str ''rates''],
      index = ix, cells = cs\<rparr>
     [Str ''rates'', Str ''value'', Str ''reaction'', Str ''type'', Str ''mapped_to''] =
   Inr \<lparr>columns = [Str ''rates'', Str ''value'', Str ''reaction'', Str ''type'', Str ''mapped_to''],
        index = ix,
        cells = map (\<lambda>r. [cell_at r 4, cell_at r 0, cell_at r 1, cell_at r 2, cell_at r 3]) cs\<rparr>"
  by (simp add: select_columns_def positions_def upt5 eval_nat_numeral)

lemma upt2: "[0..<2] = [0, 1]"
  by (simp add: upt_rec)

lemma dropped_frame:
  "drop_columns
     \<lparr>columns = [Str ''rates'', Str ''value'', Str ''reaction'', Str ''type'', Str ''mapped_to''],
      index = ix, cells = cs\<rparr>
     [Str ''type'', Str ''mapped_to'', Str ''reaction''] =
   Inr \<lparr>columns = [Str ''rates'', Str ''value''], index = ix,
        cells = map (\<lambda>r. [cell_at r 0, cell_at r 1]) cs\<rparr>"
  by (simp add: drop_columns_def upt5 eval_nat_numeral)


lemma cell_at_snoc_last: "length r = n \<Longrightarrow> cell_at (r @ [v]) n = v"
  by (auto simp: cell_at_def)

lemma cell_at_snoc_before: "j < length r \<Longrightarrow> cell_at (r @ [v]) j = cell_at r j"
  by (simp add: cell_at_def nth_append)

lemma cell_at_Cons_0: "cell_at (x # r) 0 = x"
  by (simp add: cell_at_def)

lemma cell_at_Cons_Suc: "cell_at (x # r) (Suc j) = cell_at r j"
  by (simp add: cell_at_def)

lemma handle_parameters_df_basico:
  fixes fc :: "('m, 'f) facade"
  assumes "basico_parameters (get_reaction_parameters fc m)"
  shows "handle_parameters_df fc m =
           Inr \<lparr>columns = index (get_reaction_parameters fc m),
                index = [Idx 0],
                cells = [map (\<lambda>r. cell_at r 0) (cells (get_reaction_parameters fc m))]\<rparr>"
proof -
  let ?p = "get_reaction_parameters fc m"
  let ?rows = "map (\<lambda>r. [cell_at r 0, cell_at r 1])
                 (map (\<lambda>r. [cell_at r 4, cell_at r 0, cell_at r 1, cell_at r 2, cell_at r 3])
                    (map (\<lambda>(r, v). r @ [v]) (zip (cells ?p) (index ?p))))"
  have len: "length (cells ?p) = length (index ?p)"
    and four: "\<forall>r \<in> set (cells ?p). length r = 4"
    using assms by (simp_all add: basico_parameters_def list_all_iff)
  have row: "length r = 4" if "(r, v) \<in> set (zip (cells ?p) (index ?p))" for r v
    using that four by (auto dest: set_zip_leftD)
  have "map (\<lambda>r. cell_at r 0) ?rows = map snd (zip (cells ?p) (index ?p))"
    by (auto simp: cell_at_snoc_last cell_at_Cons_0 cell_at_Cons_Suc dest: row)
  then have names: "map (\<lambda>r. cell_at r 0) ?rows = index ?p"
    using len by simp
  have "map (\<lambda>r. cell_at r 1) ?rows =
        map (\<lambda>r. cell_at r 0) (map fst (zip (cells ?p) (index ?p)))"
    by (auto simp: cell_at_snoc_before cell_at_Cons_0 cell_at_Cons_Suc dest: row)
  then have vals: "map (\<lambda>r. cell_at r 1) ?rows = map (\<lambda>r. cell_at r 0) (cells ?p)"
    using len by simp
  let ?ix = "map Idx [0..<length (index ?p)]"
  let ?W = "\<lparr>columns = [Str ''value'', Str ''reaction'', Str ''type'', Str ''mapped_to'', Str ''rates''],
             index = ?ix, cells = map (\<lambda>(r, v). r @ [v]) (zip (cells ?p) (index ?p))\<rparr>"
  let ?L = "[Str ''rates'', Str ''value'', Str ''reaction'', Str ''type'', Str ''mapped_to'' :: 'f obj]"
  let ?O = "\<lparr>columns = ?L, index = ?ix,
             cells = map (\<lambda>r. [cell_at r 4, cell_at r 0, cell_at r 1, cell_at r 2, cell_at r 3])
                       (map (\<lambda>(r, v). r @ [v]) (zip (cells ?p) (index ?p)))\<rparr>"
  let ?D = "\<lparr>columns = [Str ''rates'', Str ''value''], index = ?ix, cells = ?rows\<rparr>"
  let ?T = "\<lparr>columns = ?ix, index = [Str ''rates'', Str ''value''],
             cells = [index ?p, map (\<lambda>r. cell_at r 0) (cells ?p)]\<rparr>"
  let ?N = "\<lparr>columns = index ?p, index = [Str ''rates'', Str ''value''],
             cells = [index ?p, map (\<lambda>r. cell_at r 0) (cells ?p)]\<rparr>"
  let ?R = "\<lparr>columns = index ?p, index = [Idx 0],
             cells = [map (\<lambda>r. cell_at r 0) (cells ?p)]\<rparr>"
  have s1: "reset_index (set_column_index ?p (Str ''rates'')) = ?W"
    by (rule with_rates_frame [OF assms])
  have s2: "rates_to_front (columns ?W) = Inr ?L"
    by (simp add: rates_to_front_def)
  have s3: "select_columns ?W ?L = Inr ?O"
    by (rule ordered_frame)
  have s4: "drop_columns ?O [Str ''type'', Str ''mapped_to'', Str ''reaction''] = Inr ?D"
    by (rule dropped_frame)
  have s5: "transpose_df ?D = ?T"
    unfolding transpose_df_def using names vals by (simp add: upt2)
  have s6: "columns_from_first_row ?T = Inr ?N"
    by (simp add: columns_from_first_row_def)
  have s7: "reset_index (iloc_from_1 ?N) = ?R"
    by (simp add: reset_index_def iloc_from_1_def)
  show ?thesis
    unfolding handle_parameters_df_def Let_def
    by (simp only: s1 s2 s3 s4 s5 s6 s7 sum.case)
qed

lemma replicate_row:
  "length cs = length ix \<Longrightarrow> distinct ix \<Longrightarrow>
   map (\<lambda>l. f (map_of (zip ix cs) l)) ix = map (\<lambda>r. f (Some r)) cs"
proof (rule nth_equalityI)
  assume "length cs = length ix"
  then show "length (map (\<lambda>l. f (map_of (zip ix cs) l)) ix) = length (map (\<lambda>r. f (Some r)) cs)"
    by simp
next
  fix i
  assume len: "length cs = length ix" and d: "distinct ix"
    and i: "i < length (map (\<lambda>l. f (map_of (zip ix cs) l)) ix)"
  then have "map_of (zip ix cs) (ix ! i) = Some (cs ! i)"
    by (simp add: map_of_zip_nth)
  then show "map (\<lambda>l. f (map_of (zip ix cs) l)) ix ! i = map (\<lambda>r. f (Some r)) cs ! i"
    using i len by simp
qed

lemma concat_axis1_snapshot:
  assumes "distinct (index a)" and "length (cells a) = length (index a)"
    and "Idx 0 \<notin> set (index a)"
  shows "concat_axis1 a \<lparr>columns = pc, index = [Idx 0], cells = [vals]\<rparr> =
           Inr \<lparr>columns = columns a @ pc,
                index = index a @ [Idx 0],
                cells = map (\<lambda>r. r @ replicate (length pc) NaN) (cells a) @
                        [replicate (length (columns a)) NaN @ vals]\<rparr>"
proof -
  let ?b = "\<lparr>columns = pc, index = [Idx 0], cells = [vals]\<rparr>"
  have ne: "index a \<noteq> [Idx 0]"
    using assms(3) by auto
  have own: "map (\<lambda>l. row_of a l @ row_of ?b l) (index a) =
             map (\<lambda>r. r @ replicate (length pc) NaN) (cells a)"
  proof -
    have "map (\<lambda>l. row_of a l @ row_of ?b l) (index a) =
          map (\<lambda>l. row_of a l @ replicate (length pc) NaN) (index a)"
      using assms(3) by (auto simp: row_of_def)
    also have "\<dots> = map (\<lambda>l. (case map_of (zip (index a) (cells a)) l of
                                  None \<Rightarrow> replicate (length (columns a)) NaN
                                | Some r \<Rightarrow> r) @ replicate (length pc) NaN) (index a)"
      by (simp add: row_of_def)
    also have "\<dots> = map (\<lambda>r. r @ replicate (length pc) NaN) (cells a)"
      using replicate_row [OF assms(2) assms(1),
          of "\<lambda>x. (case x of None \<Rightarrow> replicate (length (columns a)) NaN | Some r \<Rightarrow> r) @
                   replicate (length pc) NaN"]
      by simp
    finally show ?thesis .
  qed
  have "map_of (zip (index a) (cells a)) (Idx 0) = None"
    using assms(2,3) by (simp add: map_of_zip_is_None)
  then have last: "row_of a (Idx 0) @ row_of ?b (Idx 0) = replicate (length (columns a)) NaN @ vals"
    by (simp add: row_of_def)
  show ?thesis
    using ne assms(1,3) own last
    by (simp add: concat_axis1_def union_labels_def Let_def)
qed

lemma assemble_basico:
  fixes fc :: "('m, 'f) facade"
  assumes "basico_parameters (get_reaction_parameters fc m)"
    and "distinct (index df)" and "length (cells df) = length (index df)"
    and "Idx 0 \<notin> set (index df)"
  shows "assemble_result_table fc df m =
           Inr \<lparr>columns = columns df @ index (get_reaction_parameters fc m),
                index = index df @ [Idx 0],
                cells = map (\<lambda>r. r @ replicate (length (index (get_reaction_parameters fc m))) NaN)
                          (cells df) @
                        [replicate (length (columns df)) NaN @
                         map (\<lambda>r. cell_at r 0) (cells (get_reaction_parameters fc m))]\<rparr>"
  unfolding assemble_result_table_def handle_parameters_df_basico [OF assms(1)]
  by (simp add: concat_axis1_snapshot [OF assms(2,3,4)])

lemma rates_loop_facade:
  assumes "set_reaction_parameters fc' = set_reaction_parameters fc"
  shows "rates_loop fc' py rates stdin m out = rates_loop fc py rates stdin m out"
  using assms
  by (induction fc py rates stdin m out rule: rates_loop.induct)
     (auto split: sum.splits)

lemma cli_set_rates_facade:
  assumes "get_reaction_parameters fc' = get_reaction_parameters fc"
    and "set_reaction_parameters fc' = set_reaction_parameters fc"
  shows "cli_set_rates fc' py stdin m = cli_set_rates fc py stdin m"
  unfolding cli_set_rates_def assms(1) rates_loop_facade [OF assms(2)] by (rule refl)

lemma assemble_facade:
  assumes "get_reaction_parameters fc' = get_reaction_parameters fc"
  shows "assemble_result_table fc' df m = assemble_result_table fc df m"
  by (simp add: assemble_result_table_def handle_parameters_df_def assms)

lemma main_facade:
  assumes "get_species fc' = get_species fc"
    and "get_reaction_parameters fc' = get_reaction_parameters fc"
    and "set_reaction_parameters fc' = set_reaction_parameters fc"
  shows "main fc' py excel stdin m0 = main fc py excel stdin m0"
  unfolding main_def assms(1) cli_set_rates_facade [OF assms(2,3)]
    assemble_facade [OF assms(2)]
  by (rule refl)

lemma main_result:
  assumes "main fc py excel stdin m0 = Inr g"
  shows "\<exists>concs label sel rest1 out1 rest2 out2.
           read_excel_file py excel = Inr (concs, label) \<and>
           cli_initial_conc (get_species fc m0) (Str ''name'' # index (get_species fc m0)) stdin =
             Inr (sel, rest1, out1) \<and>
           cli_set_rates fc py rest1 m0 = Inr (model g, rest2, out2) \<and>
           assemble_result_table fc (DataFrame_columns (Str ''name'' # index (get_species fc m0)))
             (model g) = Inr (steady_state_analysis_df g) \<and>
           conc_list_from_excel g = concs \<and> list_of_species_init_conc g = sel"
  using assms by (auto simp: main_def Let_def split: sum.splits prod.splits)


lemma toy_parameters_basico: "basico_parameters (get_reaction_parameters toy m)"
  by (simp add: basico_parameters_def toy_def toy_get_reaction_parameters_def)

text \<open>
  Claim C2. Let the script end normally with the variables \<open>g\<close>. The frame it writes is the
  concatenation of the frame made by \<^verbatim>\<open>pd.DataFrame(columns=...)\<close>, which has no row, with
  the parameter snapshot of the model after the parameter dialogue. The run is the same for
  every facade with the same \<open>get_species\<close>, \<open>get_reaction_parameters\<close> and
  \<open>set_reaction_parameters\<close>, whatever \<open>set_species\<close> and \<open>run_steadystate\<close> do:
  the sweep is never called. The frame and the model are the same for every spreadsheet
  column on which the script ends normally. With a parameter frame of the shape that
  \<^verbatim>\<open>basico\<close> returns, the written frame has the single row of the snapshot, whose cells in
  \<^verbatim>\<open>name\<close> and in the species columns are \<^verbatim>\<open>NaN\<close>.
\<close>

theorem script_writes_empty_frame_beside_snapshot:
  fixes fc :: "('m, 'f) facade"
  assumes "main fc py excel stdin m0 = Inr g"
  shows "assemble_result_table fc (DataFrame_columns (Str ''name'' # index (get_species fc m0)))
           (model g) = Inr (steady_state_analysis_df g) \<and>
         (get_species fc' = get_species fc \<and>
          get_reaction_parameters fc' = get_reaction_parameters fc \<and>
          set_reaction_parameters fc' = set_reaction_parameters fc \<longrightarrow>
            main fc' py excel stdin m0 = Inr g) \<and>
         (main fc py excel' stdin m0 = Inr g' \<longrightarrow>
            steady_state_analysis_df g' = steady_state_analysis_df g \<and> model g' = model g) \<and>
         (basico_parameters (get_reaction_parameters fc (model g)) \<longrightarrow>
            steady_state_analysis_df g =
              \<lparr>columns = Str ''name'' # index (get_species fc m0) @
                         index (get_reaction_parameters fc (model g)),
               index = [Idx 0],
               cells = [replicate (Suc (length (index (get_species fc m0)))) NaN @
                        map (\<lambda>r. cell_at r 0) (cells (get_reaction_parameters fc (model g)))]\<rparr>)"
proof -
  from main_result [OF assms]
  have a: "assemble_result_table fc (DataFrame_columns (Str ''name'' # index (get_species fc m0)))
             (model g) = Inr (steady_state_analysis_df g)"
    by blast
  have b: "main fc' py excel stdin m0 = Inr g"
    if "get_species fc' = get_species fc \<and>
        get_reaction_parameters fc' = get_reaction_parameters fc \<and>
        set_reaction_parameters fc' = set_reaction_parameters fc"
    using that assms main_facade [of fc' fc py excel stdin m0] by simp
  have c: "steady_state_analysis_df g' = steady_state_analysis_df g \<and> model g' = model g"
    if "main fc py excel' stdin m0 = Inr g'"
    using that assms by (auto simp: main_def Let_def split: sum.splits prod.splits)
  have d: "steady_state_analysis_df g =
            \<lparr>columns = Str ''name'' # index (get_species fc m0) @
                       index (get_reaction_parameters fc (model g)),
             index = [Idx 0],
             cells = [replicate (Suc (length (index (get_species fc m0)))) NaN @
                      map (\<lambda>r. cell_at r 0) (cells (get_reaction_parameters fc (model g)))]\<rparr>"
    if "basico_parameters (get_reaction_parameters fc (model g))"
    using assemble_basico [OF that,
        of "DataFrame_columns (Str ''name'' # index (get_species fc m0))"] a
    by (simp add: DataFrame_columns_def)
  show ?thesis
    using a b c d by blast
qed


text \<open>The spreadsheet column and the console input of the example runs.\<close>

definition toy_excel :: "int xcell list" where
  "toy_excel = [XStr '' run 1 '', XNum 1, XNum 2]"

definition toy_stdin :: "string list" where
  "toy_stdin = [''A'', ''done'', ''k1'', ''abc'', ''2.0'', ''Done'']"

theorem script_writes_snapshot_witness:
  "\<not> isl (main toy toy_py toy_excel toy_stdin toy_m0) \<and>
   map_sum id steady_state_analysis_df (main toy toy_py toy_excel toy_stdin toy_m0) =
     Inr \<lparr>columns = [Str ''name'', Str ''A'', Str ''B'', Str ''k1'', Str ''k2''],
          index = [Idx 0], cells = [[NaN, NaN, NaN, Flt 2, Flt 7]]\<rparr> \<and>
   main (toy\<lparr>set_species := (\<lambda>name v m. m), run_steadystate := (\<lambda>m. m)\<rparr>) toy_py toy_excel
       toy_stdin toy_m0 =
     main toy toy_py toy_excel toy_stdin toy_m0 \<and>
   \<not> isl (main toy toy_py [XStr ''other''] toy_stdin toy_m0) \<and>
   map_sum id steady_state_analysis_df (main toy toy_py [XStr ''other''] toy_stdin toy_m0) =
     map_sum id steady_state_analysis_df (main toy toy_py toy_excel toy_stdin toy_m0)"
proof -
  let ?fc = "toy\<lparr>set_species := (\<lambda>name v m. m), run_steadystate := (\<lambda>m. m)\<rparr>"
  have r1: "\<not> isl (main toy toy_py toy_excel toy_stdin toy_m0)"
    by code_simp
  have r2: "\<not> isl (main toy toy_py [XStr ''other''] toy_stdin toy_m0)"
    by code_simp
  obtain g where g: "main toy toy_py toy_excel toy_stdin toy_m0 = Inr g"
    using r1 by (cases "main toy toy_py toy_excel toy_stdin toy_m0") auto
  obtain g' where g': "main toy toy_py [XStr ''other''] toy_stdin toy_m0 = Inr g'"
    using r2 by (cases "main toy toy_py [XStr ''other''] toy_stdin toy_m0") auto
  have m: "map_sum id model (main toy toy_py toy_excel toy_stdin toy_m0) =
           Inr (toy_m0\<lparr>toy_k1 := 2\<rparr>)"
    by code_simp
  then have mg: "model g = toy_m0\<lparr>toy_k1 := 2\<rparr>"
    using g by simp
  have same: "get_species ?fc = get_species toy \<and>
              get_reaction_parameters ?fc = get_reaction_parameters toy \<and>
              set_reaction_parameters ?fc = set_reaction_parameters toy"
    by simp
  note t = script_writes_empty_frame_beside_snapshot [OF g, of ?fc "[XStr ''other'']" g']
  have "steady_state_analysis_df g =
          \<lparr>columns = [Str ''name'', Str ''A'', Str ''B'', Str ''k1'', Str ''k2''],
           index = [Idx 0], cells = [[NaN, NaN, NaN, Flt 2, Flt 7]]\<rparr>"
    using t toy_parameters_basico [of "model g"] mg
    by (simp add: toy_def toy_get_species_def toy_get_reaction_parameters_def toy_m0_def
        cell_at_def)
  moreover have "main ?fc toy_py toy_excel toy_stdin toy_m0 = Inr g"
    using t same by blast
  moreover have "steady_state_analysis_df g' = steady_state_analysis_df g"
    using t g' by blast
  ultimately show ?thesis
    using r1 r2 g g' by simp
qed










subsection \<open>What the sweep returns when every round succeeds\<close>

text \<open>The cells of the column labelled \<open>c\<close>, row by row (\<^verbatim>\<open>NaN\<close> without such a column).\<close>

definition column_values :: "'f frame \<Rightarrow> 'f obj \<Rightarrow> 'f obj list" where
  "column_values df c =
     map (\<lambda>r. case map_of (zip (columns df) r) c of None \<Rightarrow> NaN | Some v \<Rightarrow> v) (cells df)"

lemma map_of_zip_absent: "c \<notin> set cols \<Longrightarrow> map_of (zip cols r) c = None"
  by (auto simp: map_of_eq_None_iff dest: set_zip_leftD)

lemma column_values_reindexed:
  assumes "set cols \<subseteq> set u"
  shows "(case map_of (zip u (reindex_row cols u r)) c of None \<Rightarrow> NaN | Some v \<Rightarrow> v) =
         (case map_of (zip cols r) c of None \<Rightarrow> NaN | Some v \<Rightarrow> v)"
proof (cases "c \<in> set u")
  case True
  then show ?thesis
    by (simp add: reindex_row_def map_of_zip_map)
next
  case False
  then have "c \<notin> set cols" using assms by auto
  then show ?thesis
    using False by (simp add: reindex_row_def map_of_zip_map map_of_zip_absent)
qed

lemma append_df_column_values:
  assumes "append_df a b = Inr r"
  shows "column_values r c = column_values a c @ column_values b c"
proof (cases "columns a = columns b")
  case True
  then show ?thesis
    using assms by (auto simp: append_df_def column_values_def)
next
  case False
  let ?u = "union_labels (columns a) (columns b)"
  have r: "r = \<lparr>columns = ?u, index = index a @ index b,
                 cells = map (reindex_row (columns a) ?u) (cells a) @
                         map (reindex_row (columns b) ?u) (cells b)\<rparr>"
    using assms False by (auto simp: append_df_def Let_def split: if_splits)
  have sa: "set (columns a) \<subseteq> set ?u" and sb: "set (columns b) \<subseteq> set ?u"
    by (auto simp: union_labels_def)
  show ?thesis
    unfolding r column_values_def
    by (simp add: column_values_reindexed [OF sa] column_values_reindexed [OF sb] o_def)
qed

lemma map_of_zip_snoc:
  "length xs = length ys \<Longrightarrow> k \<notin> set xs \<Longrightarrow> map_of (zip (xs @ [k]) (ys @ [v])) k = Some v"
  by (simp add: map_add_def map_of_zip_absent)

lemma new_data_swept:
  assumes d: "distinct (index ssd)" and len: "length (cells ssd) = length (index ssd)"
  shows "column_values (new_data ssd c) (Str ''IP_tot'') =
         replicate (length (columns ssd)) (obj_of c)"
proof (cases "Str ''IP_tot'' \<in> set (index ssd)")
  case True
  then obtain i where i: "i < length (index ssd)" "index ssd ! i = Str ''IP_tot''"
    by (auto simp: in_set_conv_nth)
  have "map_of (zip (index ssd) (map g [0..<length (index ssd)])) (index ssd ! i) =
        Some (map g [0..<length (index ssd)] ! i)" for g :: "nat \<Rightarrow> 'a obj"
    using d i(1) by (intro map_of_zip_nth) simp_all
  then have look: "map_of (zip (index ssd) (map g [0..<length (index ssd)])) (Str ''IP_tot'') =
        Some (g i)" for g :: "nat \<Rightarrow> 'a obj"
    using i by simp
  show ?thesis
    using True i(2)
    by (simp add: column_values_def new_data_def set_column_scalar_def transpose_df_def
        look o_def map_replicate_const)
next
  case False
  have "map_of (zip (index ssd @ [Str ''IP_tot'']) (map f (cells ssd) @ [v])) (Str ''IP_tot'') =
        Some v" for f :: "'a obj list \<Rightarrow> 'a obj" and v
    using False len by (intro map_of_zip_snoc) simp_all
  then show ?thesis
    using False
    by (simp add: column_values_def new_data_def set_column_scalar_def transpose_df_def
        o_def map_replicate_const)
qed

lemma select_one_column_cells:
  assumes "select_columns sp [c] = Inr ssd"
  shows "length (cells ssd) = length (cells sp)"
  using assms by (auto simp: select_columns_def Let_def split: if_splits)

text \<open>
  When the species frame always has unique row labels, one row of cells per label and exactly
  one \<^verbatim>\<open>concentration\<close> column, and the frame handed in has unique columns, the sweep over
  values that all coerce returns a frame with one more row per value, and its \<^verbatim>\<open>IP_tot\<close>
  column holds the values in the order of the list.
\<close>

lemma analyze_rows_in_input_order:
  assumes sp: "\<forall>m. distinct (index (get_species fc m))"
    and wf: "\<forall>m. length (cells (get_species fc m)) = length (index (get_species fc m))"
    and one: "\<forall>m. length (positions (columns (get_species fc m)) (Str ''concentration'')) = 1"
    and df: "distinct (columns df)"
    and ok: "\<forall>c \<in> set cs. \<not> isl (float_coerce py c)"
  shows "\<exists>df' m' out'. analyze_steady_states fc py cs sel df m out = Inr (df', m', out') \<and>
           distinct (columns df') \<and>
           length (cells df') = length (cells df) + length cs \<and>
           column_values df' (Str ''IP_tot'') =
             column_values df (Str ''IP_tot'') @ map obj_of cs"
  using df ok
proof (induction cs arbitrary: df m out)
  case Nil
  then show ?case by simp
next
  case (Cons c cs)
  from Cons.prems(2) have okc: "\<not> isl (float_coerce py c)"
    and okcs: "\<forall>c \<in> set cs. \<not> isl (float_coerce py c)"
    by simp_all
  from okc obtain m1 where m1: "set_init_conc fc py sel c m = Inr m1"
    using set_init_conc_fails_iff [of fc py sel c m]
    by (cases "set_init_conc fc py sel c m") auto
  let ?m2 = "run_steadystate fc m1"
  let ?sp = "get_species fc ?m2"
  have len1: "length (positions (columns ?sp) (Str ''concentration'')) = 1"
    using one by simp
  then have "positions (columns ?sp) (Str ''concentration'') \<noteq> []"
    by auto
  then have "Str ''concentration'' \<in> set (columns ?sp)"
    by (rule positions_nonempty)
  then obtain ssd where ssd: "select_columns ?sp [Str ''concentration''] = Inr ssd"
    by (auto simp: select_columns_def Let_def)
  have cols1: "length (columns ssd) = 1"
    using select_one_column(1) [OF ssd] len1 by simp
  have dix: "distinct (index ssd)"
    using select_one_column(2) [OF ssd] sp by simp
  have lix: "length (cells ssd) = length (index ssd)"
    using select_one_column(2) [OF ssd] select_one_column_cells [OF ssd] wf by simp
  have "distinct (columns (new_data ssd c))"
    using dix by (rule new_data_distinct)
  from append_df_distinct [OF Cons.prems(1) this]
  obtain r where r: "append_df df (new_data ssd c) = Inr r" "distinct (columns r)"
    "length (cells r) = length (cells df) + length (cells (new_data ssd c))"
    by blast
  have rc: "length (cells r) = Suc (length (cells df))"
    using r(3) cols1 by (simp add: new_data_cells_length)
  have rv: "column_values r (Str ''IP_tot'') = column_values df (Str ''IP_tot'') @ [obj_of c]"
    using append_df_column_values [OF r(1)] new_data_swept [OF dix lix, of c] cols1 by simp
  from Cons.IH [OF r(2) okcs, of ?m2 out]
  show ?case
    using m1 ssd r(1) rc rv by (simp add: Let_def)
qed

text \<open>
  Claim C1 fails on the script, which never calls \<^verbatim>\<open>analyze_steady_states\<close>: for a spreadsheet
  column with the two concentrations \<open>1\<close> and \<open>2\<close> the written frame has one data row, the
  parameter snapshot, and no row of the sweep.
\<close>

theorem script_writes_one_row_for_two_concentrations:
  "map_sum id (\<lambda>g. (conc_list_from_excel g, steady_state_analysis_df g))
     (main toy toy_py [XStr ''run'', XNum 1, XNum 2] [''A'', ''done'', ''done''] toy_m0) =
     Inr ([1, 2],
          \<lparr>columns = [Str ''name'', Str ''A'', Str ''B'', Str ''k1'', Str ''k2''],
           index = [Idx 0], cells = [[NaN, NaN, NaN, Flt 5, Flt 7]]\<rparr>)"
  by code_simp

end
